theory Spec2Isabelle
  imports Complex_Main "HOL-Library.Log_Nat"
begin

section \<open>The offer document (models/offers.js, offerSchema)\<close>

text \<open>
  The coupon engine of the backend lives in \<^verbatim>\<open>models/offers.js\<close>: a Mongoose schema,
  the static \<^verbatim>\<open>validateCoupon\<close> and the methods \<^verbatim>\<open>calculateDiscount\<close> and
  \<^verbatim>\<open>applyCoupon\<close>.

  Modelling decisions:
  \<^item> A JavaScript \<^verbatim>\<open>Number\<close> is a rational; NaN and the infinities are not modelled.
    The product and the quotient of \<^verbatim>\<open>calculateDiscount\<close> are exact. The increment of
    the usage counter in \<^verbatim>\<open>applyCoupon\<close> is the addition of doubles: the exact sum
    rounded to the nearest double, ties to even.
  \<^item> A string is a list of characters. \<^verbatim>\<open>String.prototype.toUpperCase\<close> and
    \<^verbatim>\<open>String.prototype.trim\<close> belong to JavaScript, not to the repository, and work on
    all of Unicode: they are a parameter of the model.
  \<^item> A \<^verbatim>\<open>Date\<close> is its number of milliseconds since the epoch.
  \<^item> An \<^verbatim>\<open>ObjectId\<close> is an opaque identifier, given by its hexadecimal string. An
    identifier that may be \<^verbatim>\<open>null\<close> or \<^verbatim>\<open>undefined\<close> is an \<open>option\<close>; both are
    \<open>None\<close>. Every identifier is truthy in JavaScript, \<open>None\<close> is falsy.
  \<^item> An optional \<^verbatim>\<open>Number\<close> field is an \<open>option\<close>; it is truthy when it is present
    and not zero.
  \<^item> The schema's \<^verbatim>\<open>enum\<close> admits exactly the two offer types, so \<open>offerType\<close> has
    two constructors and the initial \<^verbatim>\<open>discount = 0\<close> of \<^verbatim>\<open>calculateDiscount\<close> is
    always overwritten.
\<close>

type_synonym number = rat

type_synonym date = int

datatype objectId = ObjectId string

datatype offerType = Percentage | Fixed

record usageEntry =
  userId :: "objectId option"
  orderId :: "objectId option"
  discountApplied :: number
  appliedAt :: date

record offer =
  code :: string
  type :: offerType
  "value" :: number
  description :: string
  startDate :: date
  endDate :: date
  minimumOrderAmount :: number
  maximumDiscount :: "number option"
  usageLimit :: "number option"
  timesUsed :: number
  isActive :: bool
  userSpecific :: bool
  allowedUsers :: "objectId list"
  applicableCategories :: "objectId list"
  applicableProducts :: "objectId list"
  usageHistory :: "usageEntry list"
  createdBy :: objectId
  updatedBy :: "objectId option"

text \<open>
  Every failure of the engine is a JavaScript \<^verbatim>\<open>Error\<close> that differs from the others by
  its message only. One constructor stands for each \<^verbatim>\<open>throw\<close> of the source:
  \<^item> \<open>NotFound\<close>: \<^verbatim>\<open>'Invalid or expired coupon code'\<close>;
  \<^item> \<open>MinimumNotMet m\<close>: \<^verbatim>\<open>'Minimum order amount of {m} required'\<close>, \<open>m\<close> the
    offer's minimum order amount, printed after a rupee sign;
  \<^item> \<open>UsageLimitExceeded\<close>: \<^verbatim>\<open>'Coupon usage limit exceeded'\<close>;
  \<^item> \<open>UserNotEligible\<close>: \<^verbatim>\<open>'This coupon is not available for your account'\<close>;
  \<^item> \<open>SaveFailed msg\<close>: whatever \<^verbatim>\<open>this.save()\<close> rejected with;
  \<^item> \<open>InvalidArrayLength\<close>: the \<^verbatim>\<open>RangeError\<close> of a \<^verbatim>\<open>push\<close> on an array that is full.
\<close>

datatype error =
    NotFound
  | MinimumNotMet number
  | UsageLimitExceeded
  | UserNotEligible
  | SaveFailed string
  | InvalidArrayLength

section \<open>Discount computation\<close>

text \<open>
  \<^verbatim>\<open>
  offerSchema.methods.calculateDiscount = function(orderAmount) {
    let discount = 0;
    if (this.type === 'percentage') {
      discount = (orderAmount * this.value) / 100;
    } else if (this.type === 'fixed') {
      discount = this.value;
    }
    if (this.maximumDiscount && discount > this.maximumDiscount) {
      discount = this.maximumDiscount;
    }
    return Math.min(discount, orderAmount);
  };
  \<close>
  The guard \<^verbatim>\<open>this.maximumDiscount && ...\<close> is a truthiness test: it is false when the
  field is missing and also when it is \<open>0\<close>.
\<close>

definition calculateDiscount :: "offer \<Rightarrow> number \<Rightarrow> number" where
  "calculateDiscount this orderAmount =
     (let discount = (case type this of
                        Percentage \<Rightarrow> (orderAmount * value this) / 100
                      | Fixed \<Rightarrow> value this);
          discount = (case maximumDiscount this of
                        None \<Rightarrow> discount
                      | Some m \<Rightarrow> if m \<noteq> 0 \<and> discount > m then m else discount)
      in min discount orderAmount)"


section \<open>Coupon validation\<close>

text \<open>
  The two string methods of JavaScript that the lookup goes through. Every theorem about
  \<open>validateCoupon\<close> holds whatever the two functions are.
\<close>

record stringMethods =
  toUpperCase :: "string \<Rightarrow> string"
  trim :: "string \<Rightarrow> string"

text \<open>
  What the two methods compute on strings of ASCII characters: the letters \<open>a\<close> to
  \<open>z\<close> are raised and nothing else changes; the white space stripped at both ends is
  the characters 9 to 13 and 32. The sample coupon codes are ASCII, and \<open>ascii\<close> serves
  to evaluate the model on them only.
\<close>

definition asciiUpperChar :: "char \<Rightarrow> char" where
  "asciiUpperChar c =
     (let n = (of_char c :: nat)
      in if 97 \<le> n \<and> n \<le> 122 then char_of (n - 32) else c)"

definition asciiWhiteSpace :: "char \<Rightarrow> bool" where
  "asciiWhiteSpace c \<longleftrightarrow> (let n = (of_char c :: nat) in (9 \<le> n \<and> n \<le> 13) \<or> n = 32)"

definition asciiTrim :: "string \<Rightarrow> string" where
  "asciiTrim s = rev (dropWhile asciiWhiteSpace (rev (dropWhile asciiWhiteSpace s)))"

definition ascii :: stringMethods where
  "ascii = \<lparr>toUpperCase = map asciiUpperChar, trim = asciiTrim\<rparr>"

text \<open>
  The schema declares \<^verbatim>\<open>code: { type: String, uppercase: true, trim: true, ... }\<close>.
  Mongoose runs these two setters on a value stored in \<^verbatim>\<open>code\<close> and also on the value
  a query filter gives for \<^verbatim>\<open>code\<close>. (The two setters commute: raising letters neither
  makes nor removes white space.)
\<close>

definition codeSetters :: "stringMethods \<Rightarrow> string \<Rightarrow> string" where
  "codeSetters js v = trim js (toUpperCase js v)"

text \<open>
  The filter of the \<^verbatim>\<open>findOne\<close> call, for the code \<open>c\<close> the source puts in it:
  \<^verbatim>\<open>
  { code: code.toUpperCase(), isActive: true,
    startDate: { $lte: new Date() }, endDate: { $gte: new Date() } }
  \<close>
  The two \<^verbatim>\<open>new Date()\<close> are separate readings of the clock, \<open>t1\<close> for the start date
  and \<open>t2\<close> for the end date.
\<close>

definition couponQuery :: "stringMethods \<Rightarrow> string \<Rightarrow> date \<Rightarrow> date \<Rightarrow> offer \<Rightarrow> bool" where
  "couponQuery js c t1 t2 doc \<longleftrightarrow>
     code doc = codeSetters js c \<and> isActive doc \<and> startDate doc \<le> t1 \<and> endDate doc \<ge> t2"

text \<open>
  The collection is the list of its documents; \<^verbatim>\<open>findOne\<close> gives the first document
  that matches the filter, \<open>None\<close> (the source's \<^verbatim>\<open>null\<close>) when there is none.
\<close>

definition findOne :: "(offer \<Rightarrow> bool) \<Rightarrow> offer list \<Rightarrow> offer option" where
  "findOne q db = List.find q db"

text \<open>\<^verbatim>\<open>offer.allowedUsers.includes(userId)\<close>: Mongoose compares identifiers by value.\<close>

definition includes_id :: "objectId list \<Rightarrow> objectId \<Rightarrow> bool" where
  "includes_id xs x \<longleftrightarrow> x \<in> set xs"

text \<open>
  \<^verbatim>\<open>
  offerSchema.statics.validateCoupon = async function(code, orderAmount, userId = null) {
    const offer = await this.findOne({ ... });
    if (!offer) { throw new Error('Invalid or expired coupon code'); }
    if (orderAmount < offer.minimumOrderAmount) { throw new Error(`Minimum order amount ...`); }
    if (offer.usageLimit && offer.timesUsed >= offer.usageLimit) {
      throw new Error('Coupon usage limit exceeded');
    }
    if (offer.userSpecific && userId) {
      if (!offer.allowedUsers.includes(userId)) {
        throw new Error('This coupon is not available for your account');
      }
    }
    return offer;
  };
  \<close>
  The collection is threaded through the call: the result is the outcome together with
  the collection as the call leaves it. \<^verbatim>\<open>findOne\<close> is the only call to the persistence
  layer and the body assigns to no field of the document, so every path hands the
  collection on as it got it.
\<close>

definition validateCoupon ::
  "stringMethods \<Rightarrow> offer list \<Rightarrow> date \<Rightarrow> date \<Rightarrow> string \<Rightarrow> number \<Rightarrow> objectId option
     \<Rightarrow> (error + offer) \<times> offer list" where
  "validateCoupon js db t1 t2 c orderAmount uid =
     (case findOne (couponQuery js (toUpperCase js c) t1 t2) db of
        None \<Rightarrow> (Inl NotFound, db)
      | Some offer \<Rightarrow>
          if orderAmount < minimumOrderAmount offer
            then (Inl (MinimumNotMet (minimumOrderAmount offer)), db)
          else if (case usageLimit offer of
                     None \<Rightarrow> False
                   | Some l \<Rightarrow> l \<noteq> 0 \<and> timesUsed offer \<ge> l)
            then (Inl UsageLimitExceeded, db)
          else if userSpecific offer \<and>
                  (case uid of
                     None \<Rightarrow> False
                   | Some u \<Rightarrow> \<not> includes_id (allowedUsers offer) u)
            then (Inl UserNotEligible, db)
          else (Inr offer, db))"

section \<open>Addition of doubles\<close>

text \<open>
  \<open>fl y\<close> is the double nearest to the rational \<open>y\<close>, ties to the even significand, so
  that the sum of two doubles \<open>x\<close> and \<open>y\<close> in JavaScript is \<open>fl (x + y)\<close>. The
  exponent of \<open>y\<close> is the \<open>e\<close> with \<open>2 ^ e \<le> \<bar>y\<bar> < 2 ^ (e + 1)\<close>, not below
  \<open>- 1022\<close> (the subnormal numbers); neighbouring doubles of that exponent are
  \<open>2 ^ (e - 52)\<close> apart. Overflow to infinity is not modelled: the sum of a double and
  \<open>1\<close> never overflows.
\<close>

definition exponent :: "number \<Rightarrow> int" where
  "exponent y =
     (if 1 \<le> \<bar>y\<bar> then bitlen \<lfloor>\<bar>y\<bar>\<rfloor> - 1 else - bitlen (\<lceil>1 / \<bar>y\<bar>\<rceil> - 1))"

definition ulp :: "number \<Rightarrow> number" where
  "ulp y =
     (let e = max (exponent y) (- 1022) - 52
      in if 0 \<le> e then 2 ^ nat e else 1 / 2 ^ nat (- e))"

definition roundTiesToEven :: "number \<Rightarrow> int" where
  "roundTiesToEven q =
     (let f = \<lfloor>q\<rfloor>; r = q - of_int f
      in if r < 1 / 2 then f else if 1 / 2 < r then f + 1 else if even f then f else f + 1)"

definition fl :: "number \<Rightarrow> number" where
  "fl y = (if y = 0 then 0 else of_int (roundTiesToEven (y / ulp y)) * ulp y)"

section \<open>Coupon application\<close>

text \<open>
  \<^verbatim>\<open>push\<close> on an array: an array holds at most \<open>2 ^ 32 - 1 = 4294967295\<close> elements,
  and a \<^verbatim>\<open>push\<close> beyond that throws a \<^verbatim>\<open>RangeError\<close>.
\<close>

definition push :: "'a list \<Rightarrow> 'a \<Rightarrow> error + 'a list" where
  "push xs x = (if length xs < 4294967295 then Inr (xs @ [x]) else Inl InvalidArrayLength)"

text \<open>
  \<^verbatim>\<open>
  offerSchema.methods.applyCoupon = async function(userId, orderId, discountApplied) {
    this.timesUsed += 1;
    this.usageHistory.push({ userId, orderId: orderId || null, discountApplied,
                             appliedAt: new Date() });
    await this.save();
    return this;
  };
  \<close>
  The document is mutated in memory before \<^verbatim>\<open>save\<close> runs, so the model returns the
  document as the call leaves it together with the outcome: the document itself when
  \<^verbatim>\<open>save\<close> resolved, the failure when \<^verbatim>\<open>push\<close> threw or \<^verbatim>\<open>save\<close> rejected. The
  persistence layer (schema validation, the pre-save hook that rejects an end date not
  after the start date, the write to the database) is a parameter: \<open>save doc\<close> is
  \<open>None\<close> when the write is accepted and the message of the rejection otherwise.
  \<open>now\<close> is the reading of the clock. \<^verbatim>\<open>orderId || null\<close> stores \<^verbatim>\<open>null\<close> for a
  missing order identifier and the identifier otherwise.
\<close>

definition applyCoupon ::
  "(offer \<Rightarrow> string option) \<Rightarrow> date \<Rightarrow> offer \<Rightarrow> objectId option \<Rightarrow> objectId option \<Rightarrow> number
     \<Rightarrow> offer \<times> (error + offer)" where
  "applyCoupon save now this uid oid discount =
     (let this = this\<lparr>timesUsed := fl (timesUsed this + 1)\<rparr>
      in case push (usageHistory this)
                \<lparr>userId = uid,
                 orderId = (case oid of Some i \<Rightarrow> Some i | None \<Rightarrow> None),
                 discountApplied = discount,
                 appliedAt = now\<rparr> of
           Inl e \<Rightarrow> (this, Inl e)
         | Inr history \<Rightarrow>
             (let this = this\<lparr>usageHistory := history\<rparr>
              in (this, case save this of
                          None \<Rightarrow> Inr this
                        | Some msg \<Rightarrow> Inl (SaveFailed msg))))"

text \<open>
  Several applications of one offer, one after another: each call works on the document
  the call before it left. A call is the clock reading and the three arguments.
\<close>

type_synonym application = "date \<times> objectId option \<times> objectId option \<times> number"

fun applyCoupons ::
  "(offer \<Rightarrow> string option) \<Rightarrow> offer \<Rightarrow> application list \<Rightarrow> offer \<times> (error + offer) list" where
  "applyCoupons save this [] = (this, [])"
| "applyCoupons save this ((now, uid, oid, discount) # calls) =
     (let (this1, r) = applyCoupon save now this uid oid discount;
          (this2, rs) = applyCoupons save this1 calls
      in (this2, r # rs))"

text \<open>A persistence layer that accepts every write.\<close>

definition accept :: "offer \<Rightarrow> string option" where
  "accept doc = None"

section \<open>Sample data (routes/sampleData/sampleOffers.js)\<close>

definition admin :: objectId where
  "admin = ObjectId ''64a1f2b3c4d5e6f789012345''"

definition user347 :: objectId where
  "user347 = ObjectId ''64a1f2b3c4d5e6f789012347''"

definition user348 :: objectId where
  "user348 = ObjectId ''64a1f2b3c4d5e6f789012348''"

definition user350 :: objectId where
  "user350 = ObjectId ''64a1f2b3c4d5e6f789012350''"

text \<open>
  The sample offers are created at \<^verbatim>\<open>Date.now()\<close>; here that instant is \<open>0\<close>, and one
  day is 86400000 milliseconds.
\<close>

definition WELCOME10 :: offer where
  "WELCOME10 =
     \<lparr>code = ''WELCOME10'', type = Percentage, value = 10,
      description = ''Welcome discount for new customers'',
      startDate = 0, endDate = 30 * 86400000,
      minimumOrderAmount = 500, maximumDiscount = Some 200,
      usageLimit = Some 1000, timesUsed = 0, isActive = True, userSpecific = False,
      allowedUsers = [], applicableCategories = [], applicableProducts = [],
      usageHistory = [], createdBy = admin, updatedBy = None\<rparr>"

definition FLAT100 :: offer where
  "FLAT100 =
     \<lparr>code = ''FLAT100'', type = Fixed, value = 100,
      description = ''Flat 100 off on orders above 1000'',
      startDate = 0, endDate = 15 * 86400000,
      minimumOrderAmount = 1000, maximumDiscount = None,
      usageLimit = Some 500, timesUsed = 0, isActive = True, userSpecific = False,
      allowedUsers = [], applicableCategories = [], applicableProducts = [],
      usageHistory = [], createdBy = admin, updatedBy = None\<rparr>"

definition LOYALTY20 :: offer where
  "LOYALTY20 =
     \<lparr>code = ''LOYALTY20'', type = Percentage, value = 20,
      description = ''Loyalty program discount for premium customers'',
      startDate = 0, endDate = 90 * 86400000,
      minimumOrderAmount = 1000, maximumDiscount = Some 300,
      usageLimit = None, timesUsed = 0, isActive = True, userSpecific = True,
      allowedUsers = [user347, user348], applicableCategories = [], applicableProducts = [],
      usageHistory = [], createdBy = admin, updatedBy = None\<rparr>"

definition EXPIRED15 :: offer where
  "EXPIRED15 =
     \<lparr>code = ''EXPIRED15'', type = Percentage, value = 15,
      description = ''Expired offer for testing'',
      startDate = - 10 * 86400000, endDate = - 2 * 86400000,
      minimumOrderAmount = 300, maximumDiscount = None,
      usageLimit = Some 100, timesUsed = 0, isActive = False, userSpecific = False,
      allowedUsers = [], applicableCategories = [], applicableProducts = [],
      usageHistory = [], createdBy = admin, updatedBy = None\<rparr>"

definition sampleOffers :: "offer list" where
  "sampleOffers = [WELCOME10, FLAT100, LOYALTY20, EXPIRED15]"

text \<open>A one-use coupon that has not been used yet, and a fixed offer whose cap is zero.\<close>

definition ONCE :: offer where
  "ONCE = FLAT100\<lparr>code := ''ONCE'', usageLimit := Some 1\<rparr>"


text \<open>
  An offer without usage limit whose counter an administrative edit has set to
  \<open>2 ^ 53 = 9007199254740992\<close>.
\<close>

definition SATURATED :: offer where
  "SATURATED = LOYALTY20\<lparr>code := ''SATURATED'', timesUsed := 9007199254740992\<rparr>"

section \<open>Discount computation: properties\<close>

text \<open>
  C6: for every offer and every order amount that is not negative, the computed discount
  is at most the order amount.
\<close>

theorem calculateDiscount_le_orderAmount:
  "0 \<le> orderAmount \<Longrightarrow> calculateDiscount this orderAmount \<le> orderAmount"
  by (simp add: calculateDiscount_def Let_def)

theorem calculateDiscount_le_orderAmount_witness:
  "(0::number) \<le> 1500 \<and> calculateDiscount WELCOME10 1500 \<le> 1500"
  using calculateDiscount_le_orderAmount [of 1500 WELCOME10] by simp




section \<open>Coupon validation: properties\<close>

lemma findOne_Some: "findOne q db = Some doc \<Longrightarrow> q doc \<and> doc \<in> set db"
  unfolding findOne_def by (induction db) (auto split: if_splits)

lemma findOne_None: "findOne q db = None \<longleftrightarrow> (\<forall>doc \<in> set db. \<not> q doc)"
  unfolding findOne_def by (auto simp add: find_None_iff)

lemma validateCoupon_collection: "snd (validateCoupon js db t1 t2 c orderAmount uid) = db"
  by (simp add: validateCoupon_def split: option.splits)

text \<open>
  Lookups in the sample collection, evaluated. The code may come in lower case and with
  white space around it: upper-casing and the setters turn it into the stored code.
\<close>

lemma key_expired15: "codeSetters ascii (toUpperCase ascii '' expired15 '') = ''EXPIRED15''"
  by code_simp

lemma lookup_LOYALTY20:
  "findOne (couponQuery ascii (toUpperCase ascii ''loyalty20'') 1 1) sampleOffers =
     Some LOYALTY20"
  by code_simp

lemma lookup_FLAT100:
  "findOne (couponQuery ascii (toUpperCase ascii '' flat100 '') 5 6) sampleOffers =
     Some FLAT100"
  by code_simp

lemma lookup_ONCE:
  "findOne (couponQuery ascii (toUpperCase ascii ''once'') 5 6) [ONCE] = Some ONCE"
  by code_simp

lemma lookup_ONCE_used:
  "findOne (couponQuery ascii (toUpperCase ascii ''once'') 5 6) [ONCE\<lparr>timesUsed := 1\<rparr>] =
     Some (ONCE\<lparr>timesUsed := 1\<rparr>)"
  by code_simp

text \<open>
  C3: when the lookup finds an (active, in-window) offer, \<open>validateCoupon\<close> fails with
  \<open>MinimumNotMet\<close> exactly when the order amount is below the offer's minimum order
  amount; the failure carries that minimum; at equality the failure is not raised.
\<close>

theorem validateCoupon_minimum:
  assumes "findOne (couponQuery js (toUpperCase js c) t1 t2) db = Some offer"
  shows "((\<exists>m. fst (validateCoupon js db t1 t2 c orderAmount uid) = Inl (MinimumNotMet m)) \<longleftrightarrow>
            orderAmount < minimumOrderAmount offer) \<and>
         (orderAmount < minimumOrderAmount offer \<longrightarrow>
            fst (validateCoupon js db t1 t2 c orderAmount uid) =
              Inl (MinimumNotMet (minimumOrderAmount offer))) \<and>
         (orderAmount = minimumOrderAmount offer \<longrightarrow>
            (\<forall>m. fst (validateCoupon js db t1 t2 c orderAmount uid) \<noteq> Inl (MinimumNotMet m)))"
  using assms by (simp add: validateCoupon_def)

theorem validateCoupon_minimum_witness:
  "findOne (couponQuery ascii (toUpperCase ascii '' flat100 '') 5 6) sampleOffers =
     Some FLAT100 \<and>
   minimumOrderAmount FLAT100 = 1000 \<and>
   fst (validateCoupon ascii sampleOffers 5 6 '' flat100 '' 800 None) =
     Inl (MinimumNotMet 1000) \<and>
   fst (validateCoupon ascii sampleOffers 5 6 '' flat100 '' 1000 None) = Inr FLAT100"
proof -
  have "fst (validateCoupon ascii sampleOffers 5 6 '' flat100 '' 1000 None) = Inr FLAT100"
    by (simp add: validateCoupon_def lookup_FLAT100) (simp add: FLAT100_def)
  then show ?thesis
    using validateCoupon_minimum [OF lookup_FLAT100, of 800 None] lookup_FLAT100
    by (simp add: FLAT100_def)
qed

text \<open>
  C4: when the lookup finds an offer and the minimum order amount is met, an offer whose
  \<open>usageLimit\<close> is set to a positive number fails with \<open>UsageLimitExceeded\<close> exactly
  when \<open>timesUsed\<close> has reached the limit; an offer without \<open>usageLimit\<close> never fails
  with \<open>UsageLimitExceeded\<close>.
\<close>

theorem validateCoupon_usageLimit:
  assumes "findOne (couponQuery js (toUpperCase js c) t1 t2) db = Some offer"
    and "\<not> orderAmount < minimumOrderAmount offer"
  shows "(\<forall>l. usageLimit offer = Some l \<and> 0 < l \<longrightarrow>
            (fst (validateCoupon js db t1 t2 c orderAmount uid) = Inl UsageLimitExceeded \<longleftrightarrow>
               timesUsed offer \<ge> l)) \<and>
         (usageLimit offer = None \<longrightarrow>
            fst (validateCoupon js db t1 t2 c orderAmount uid) \<noteq> Inl UsageLimitExceeded)"
  using assms by (auto simp add: validateCoupon_def split: option.splits)

theorem validateCoupon_usageLimit_witness:
  "findOne (couponQuery ascii (toUpperCase ascii ''once'') 5 6) [ONCE] = Some ONCE \<and>
   \<not> 1000 < minimumOrderAmount ONCE \<and> usageLimit ONCE = Some 1 \<and> timesUsed ONCE = 0 \<and>
   fst (validateCoupon ascii [ONCE] 5 6 ''once'' 1000 None) = Inr ONCE \<and>
   fst (validateCoupon ascii [ONCE\<lparr>timesUsed := 1\<rparr>] 5 6 ''once'' 1000 None) =
     Inl UsageLimitExceeded \<and>
   usageLimit LOYALTY20 = None \<and>
   fst (validateCoupon ascii sampleOffers 1 1 ''loyalty20'' 1200 None) \<noteq>
     Inl UsageLimitExceeded"
proof -
  have "fst (validateCoupon ascii [ONCE] 5 6 ''once'' 1000 None) = Inr ONCE"
    by (simp add: validateCoupon_def lookup_ONCE) (simp add: ONCE_def FLAT100_def)
  then show ?thesis
    using validateCoupon_usageLimit [OF lookup_ONCE_used, of 1000 None]
      validateCoupon_usageLimit [OF lookup_LOYALTY20, of 1200 None]
      lookup_ONCE
    by (simp add: ONCE_def FLAT100_def LOYALTY20_def)
qed

text \<open>
  C2 as it is worded does not hold: LOYALTY20 is user-specific, and a call without a
  user identifier passes the lookup, the minimum and the usage limit and then succeeds,
  because the guard \<^verbatim>\<open>offer.userSpecific && userId\<close> skips the membership test.
\<close>

theorem validateCoupon_absent_user_counterexample:
  "userSpecific LOYALTY20 \<and>
   fst (validateCoupon ascii sampleOffers 1 1 ''loyalty20'' 1200 None) = Inr LOYALTY20"
  by (simp add: validateCoupon_def lookup_LOYALTY20) (simp add: LOYALTY20_def)

text \<open>
  C2, amended: for a user-specific offer that passes the lookup, the minimum-amount and
  the usage-limit checks, \<open>validateCoupon\<close> fails with \<open>UserNotEligible\<close> when a user
  identifier is given and is not in \<open>allowedUsers\<close>, succeeds when it is given and is in
  \<open>allowedUsers\<close>, and also succeeds when no user identifier is given (the membership
  test is then skipped).
\<close>

theorem validateCoupon_userSpecific:
  assumes "findOne (couponQuery js (toUpperCase js c) t1 t2) db = Some offer"
    and "\<not> orderAmount < minimumOrderAmount offer"
    and "\<forall>l. usageLimit offer = Some l \<longrightarrow> l = 0 \<or> timesUsed offer < l"
    and "userSpecific offer"
  shows "fst (validateCoupon js db t1 t2 c orderAmount uid) =
           (case uid of
              None \<Rightarrow> Inr offer
            | Some u \<Rightarrow>
                if u \<in> set (allowedUsers offer) then Inr offer else Inl UserNotEligible)"
  using assms
  by (auto simp add: validateCoupon_def includes_id_def not_le split: option.splits)

theorem validateCoupon_userSpecific_witness:
  "findOne (couponQuery ascii (toUpperCase ascii ''loyalty20'') 1 1) sampleOffers =
     Some LOYALTY20 \<and>
   \<not> 1200 < minimumOrderAmount LOYALTY20 \<and> usageLimit LOYALTY20 = None \<and>
   userSpecific LOYALTY20 \<and>
   fst (validateCoupon ascii sampleOffers 1 1 ''loyalty20'' 1200 (Some user347)) =
     Inr LOYALTY20 \<and>
   fst (validateCoupon ascii sampleOffers 1 1 ''loyalty20'' 1200 (Some user350)) =
     Inl UserNotEligible"
  using validateCoupon_userSpecific [OF lookup_LOYALTY20, of 1200 "Some user347"]
    validateCoupon_userSpecific [OF lookup_LOYALTY20, of 1200 "Some user350"]
    lookup_LOYALTY20
  by (simp add: LOYALTY20_def user347_def user348_def user350_def)

text \<open>
  C8: validation is a pure read. When \<open>validateCoupon\<close> succeeds, the collection it
  leaves is the collection it was called on, document for document and field for field,
  and the offer it returns is the document that the lookup finds in that collection, so
  each field of the returned offer (\<open>timesUsed\<close>, \<open>usageHistory\<close> and the policy
  fields) has the stored value.
\<close>

theorem validateCoupon_pure_read:
  assumes "validateCoupon js db t1 t2 c orderAmount uid = (Inr offer, db')"
  shows "db' = db \<and>
         findOne (couponQuery js (toUpperCase js c) t1 t2) db' = Some offer \<and>
         offer \<in> set db'"
proof -
  have db': "db' = db"
    using assms validateCoupon_collection [of js db t1 t2 c orderAmount uid] by simp
  have "findOne (couponQuery js (toUpperCase js c) t1 t2) db = Some offer"
    using assms by (auto simp add: validateCoupon_def split: option.splits if_splits)
  then show ?thesis
    using db' findOne_Some by blast
qed

theorem validateCoupon_pure_read_witness:
  "validateCoupon ascii sampleOffers 5 6 '' flat100 '' 1200 None = (Inr FLAT100, sampleOffers) \<and>
   findOne (couponQuery ascii (toUpperCase ascii '' flat100 '') 5 6) sampleOffers =
     Some FLAT100 \<and>
   FLAT100 \<in> set sampleOffers"
proof -
  have ok: "validateCoupon ascii sampleOffers 5 6 '' flat100 '' 1200 None =
              (Inr FLAT100, sampleOffers)"
    by (simp add: validateCoupon_def lookup_FLAT100) (simp add: FLAT100_def)
  show ?thesis
    using ok validateCoupon_pure_read [OF ok] by simp
qed

text \<open>
  C9: the lookup failure does not tell its cause. The lookup is by the given code as the
  source upper-cases it and the schema's setters normalise it. A run on a collection
  that holds no offer with that code, and a run on a collection that holds one which is
  inactive or outside its date window, both fail with the same \<open>NotFound\<close> error,
  whatever the order amounts and user identifiers of the two runs.
\<close>

theorem validateCoupon_lookup_failure_generic:
  assumes "\<forall>doc \<in> set db1. code doc \<noteq> codeSetters js (toUpperCase js c)"
    and "\<exists>doc \<in> set db2. code doc = codeSetters js (toUpperCase js c)"
    and "\<forall>doc \<in> set db2. code doc = codeSetters js (toUpperCase js c) \<longrightarrow>
           \<not> isActive doc \<or> t1 < startDate doc \<or> endDate doc < t2"
  shows "fst (validateCoupon js db1 s1 s2 c a1 u1) = Inl NotFound \<and>
         fst (validateCoupon js db2 t1 t2 c a2 u2) = Inl NotFound"
proof -
  have "findOne (couponQuery js (toUpperCase js c) s1 s2) db1 = None"
    using assms(1) by (auto simp add: findOne_None couponQuery_def)
  moreover have "findOne (couponQuery js (toUpperCase js c) t1 t2) db2 = None"
    using assms(3) by (auto simp add: findOne_None couponQuery_def)
  ultimately show ?thesis by (simp add: validateCoupon_def)
qed

theorem validateCoupon_lookup_failure_generic_witness:
  "codeSetters ascii (toUpperCase ascii '' expired15 '') = code EXPIRED15 \<and>
   fst (validateCoupon ascii [WELCOME10, FLAT100] 5 6 '' expired15 '' 500 None) =
     Inl NotFound \<and>
   fst (validateCoupon ascii sampleOffers 5 6 '' expired15 '' 700 (Some user347)) =
     Inl NotFound"
  using validateCoupon_lookup_failure_generic
    [of "[WELCOME10, FLAT100]" ascii "'' expired15 ''" sampleOffers 5 6 5 6 500 None 700
      "Some user347"]
  by (simp add: key_expired15 sampleOffers_def WELCOME10_def FLAT100_def LOYALTY20_def
      EXPIRED15_def)

section \<open>Addition of doubles: properties\<close>

lemma roundTiesToEven_of_int: "roundTiesToEven (of_int m) = m"
  by (simp add: roundTiesToEven_def)

lemma exponent_of_int:
  assumes "1 \<le> n" and "n < 2 ^ 53"
  shows "0 \<le> exponent (of_int n)" and "exponent (of_int n) \<le> 52"
proof -
  have e: "exponent (of_int n) = bitlen n - 1"
    using assms(1) by (simp add: exponent_def)
  have "1 \<le> bitlen n"
    using assms(1) bitlen_eq_zero_iff [of n] bitlen_nonneg [of n] by linarith
  then show "0 \<le> exponent (of_int n)" by (simp add: e)
  have "bitlen n \<le> 53"
    using assms by (simp add: bitlen_le_iff_power)
  then show "exponent (of_int n) \<le> 52" by (simp add: e)
qed

text \<open>Every integer from 1 to \<open>2 ^ 53\<close> is a double.\<close>

lemma fl_of_int:
  assumes "1 \<le> n" and "n < 2 ^ 53"
  shows "fl (of_int n) = of_int n"
proof -
  define k where "k = nat (52 - exponent (of_int n))"
  have u: "ulp (of_int n) = 1 / 2 ^ k"
    using exponent_of_int [OF assms]
    by (auto simp add: ulp_def Let_def k_def max_def)
  have "of_int n / ulp (of_int n) = (of_int (n * 2 ^ k) :: rat)"
    by (simp add: u)
  then have "roundTiesToEven (of_int n / ulp (of_int n)) = n * 2 ^ k"
    by (simp only: roundTiesToEven_of_int)
  then show ?thesis
    using assms(1) by (simp add: fl_def u)
qed

lemma fl_2_53: "fl (2 ^ 53) = 2 ^ 53"
  by code_simp

text \<open>Below \<open>2 ^ 53\<close> the increment of a counter is exact; at \<open>2 ^ 53\<close> it is lost.\<close>

lemma fl_increment:
  assumes "0 \<le> k" and "k < 2 ^ 53"
  shows "fl (of_int k + 1) = of_int k + 1"
proof (cases "k + 1 < 2 ^ 53")
  case True
  then show ?thesis using fl_of_int [of "k + 1"] assms by simp
next
  case False
  then have "k + 1 = 2 ^ 53" using assms by simp
  then have "(of_int k :: rat) + 1 = 2 ^ 53"
    by (metis of_int_1 of_int_add of_int_numeral of_int_power)
  then show ?thesis using fl_2_53 by simp
qed

lemma fl_saturated: "fl 9007199254740993 = 9007199254740992"
  by code_simp

lemma fl_1: "fl 1 = 1"
  using fl_increment [of 0] by simp

lemma fl_2: "fl 2 = 2"
  using fl_increment [of 1] by simp

section \<open>Coupon application: properties\<close>

lemma applyCoupon_exact:
  assumes "timesUsed this = of_int k" and "0 \<le> k" and "k < 2 ^ 53"
    and "length (usageHistory this) < 4294967295"
  shows "fst (applyCoupon save now this uid oid discount) =
           this\<lparr>timesUsed := of_int (k + 1),
                usageHistory := usageHistory this @
                  [\<lparr>userId = uid, orderId = oid, discountApplied = discount, appliedAt = now\<rparr>]\<rparr>"
    and "snd (applyCoupon save now this uid oid discount) =
           (case save (fst (applyCoupon save now this uid oid discount)) of
              None \<Rightarrow> Inr (fst (applyCoupon save now this uid oid discount))
            | Some msg \<Rightarrow> Inl (SaveFailed msg))"
  using assms fl_increment [of k]
  by (simp_all add: applyCoupon_def push_def Let_def split: option.splits)

lemma applyCoupon_success:
  assumes "snd (applyCoupon save now this uid oid discount) = Inr doc"
  shows "length (usageHistory this) < 4294967295"
    and "doc = fst (applyCoupon save now this uid oid discount)"
  using assms
  by (auto simp add: applyCoupon_def push_def Let_def split: option.splits if_splits)

text \<open>
  C5 as it is worded does not hold for every offer: the counter is a double, and at
  \<open>2 ^ 53\<close> the sum with 1 rounds back to \<open>2 ^ 53\<close>. On SATURATED the call leaves
  \<open>timesUsed\<close> as it was, while \<open>usageHistory\<close> gains its entry.
\<close>

theorem applyCoupon_saturated_counterexample:
  "timesUsed SATURATED = 9007199254740992 \<and>
   timesUsed (fst (applyCoupon accept 7 SATURATED (Some user347) None 240)) =
     9007199254740992 \<and>
   usageHistory (fst (applyCoupon accept 7 SATURATED (Some user347) None 240)) =
     [\<lparr>userId = Some user347, orderId = None, discountApplied = 240, appliedAt = 7\<rparr>]"
  by (simp add: applyCoupon_def push_def SATURATED_def LOYALTY20_def fl_saturated Let_def)

text \<open>
  C5, amended: for every offer whose \<open>timesUsed\<close> is a non-negative integer below
  \<open>2 ^ 53\<close> and whose \<open>usageHistory\<close> is not a full array, and whatever the
  arguments, the document that \<open>applyCoupon\<close> leaves has \<open>timesUsed\<close> one higher, and
  its \<open>usageHistory\<close> is the old one followed by exactly one entry, which carries the
  user identifier, the order identifier and the discount of the call (and the clock
  reading); the document returned on success is that document.
\<close>

theorem applyCoupon_roundtrip:
  assumes "timesUsed this = of_int k" and "0 \<le> k" and "k < 2 ^ 53"
    and "length (usageHistory this) < 4294967295"
  shows "timesUsed (fst (applyCoupon save now this uid oid discount)) = timesUsed this + 1 \<and>
         usageHistory (fst (applyCoupon save now this uid oid discount)) =
           usageHistory this @
             [\<lparr>userId = uid, orderId = oid, discountApplied = discount, appliedAt = now\<rparr>] \<and>
         (\<forall>doc. snd (applyCoupon save now this uid oid discount) = Inr doc \<longrightarrow>
            doc = fst (applyCoupon save now this uid oid discount))"
  using applyCoupon_exact(1) [OF assms, of save now uid oid discount] assms(1)
    applyCoupon_success(2) [of save now this uid oid discount]
  by simp

theorem applyCoupon_roundtrip_witness:
  "timesUsed WELCOME10 = of_int 0 \<and>
   length (usageHistory WELCOME10) < 4294967295 \<and>
   timesUsed (fst (applyCoupon accept 7 WELCOME10 (Some user347) None 60)) = 1 \<and>
   usageHistory (fst (applyCoupon accept 7 WELCOME10 (Some user347) None 60)) =
     [\<lparr>userId = Some user347, orderId = None, discountApplied = 60, appliedAt = 7\<rparr>]"
proof -
  have t: "timesUsed WELCOME10 = of_int 0" and l: "length (usageHistory WELCOME10) < 4294967295"
    by (simp_all add: WELCOME10_def)
  show ?thesis
    using t l applyCoupon_roundtrip [OF t _ _ l, of accept 7 "Some user347" None 60]
    by (simp add: WELCOME10_def)
qed

text \<open>
  C7: \<open>timesUsed = length usageHistory\<close> is preserved by every successful
  \<open>applyCoupon\<close>: when it holds for the offer before the call and the call succeeds, it
  holds for the offer the call returns, which is the offer the call leaves.
\<close>

theorem applyCoupon_preserves_count:
  assumes "timesUsed this = of_nat (length (usageHistory this))"
    and "snd (applyCoupon save now this uid oid discount) = Inr this'"
  shows "timesUsed this' = of_nat (length (usageHistory this')) \<and>
         fst (applyCoupon save now this uid oid discount) = this'"
proof -
  have room: "length (usageHistory this) < 4294967295"
    and this': "this' = fst (applyCoupon save now this uid oid discount)"
    using applyCoupon_success [OF assms(2)] by simp_all
  have t: "timesUsed this = of_int (int (length (usageHistory this)))"
    using assms(1) by simp
  have "int (length (usageHistory this)) < 2 ^ 53"
    using room by simp
  then have "fst (applyCoupon save now this uid oid discount) =
               this\<lparr>timesUsed := of_int (int (length (usageHistory this)) + 1),
                    usageHistory := usageHistory this @
                      [\<lparr>userId = uid, orderId = oid, discountApplied = discount,
                        appliedAt = now\<rparr>]\<rparr>"
    using applyCoupon_exact(1) [OF t _ _ room] by simp
  then show ?thesis
    using this' by simp
qed

theorem applyCoupon_preserves_count_witness:
  "timesUsed WELCOME10 = of_nat (length (usageHistory WELCOME10)) \<and>
   snd (applyCoupon accept 7 WELCOME10 (Some user347) None 60) =
     Inr (fst (applyCoupon accept 7 WELCOME10 (Some user347) None 60)) \<and>
   timesUsed (fst (applyCoupon accept 7 WELCOME10 (Some user347) None 60)) =
     of_nat (length (usageHistory (fst (applyCoupon accept 7 WELCOME10 (Some user347) None 60))))"
proof -
  have inv: "timesUsed WELCOME10 = of_nat (length (usageHistory WELCOME10))"
    by (simp add: WELCOME10_def)
  have ok: "snd (applyCoupon accept 7 WELCOME10 (Some user347) None 60) =
              Inr (fst (applyCoupon accept 7 WELCOME10 (Some user347) None 60))"
    by (simp add: applyCoupon_def push_def accept_def WELCOME10_def Let_def)
  show ?thesis
    using inv ok applyCoupon_preserves_count [OF inv ok] by simp
qed

subsection \<open>Applications one after another\<close>

lemma applyCoupons_Cons:
  "applyCoupons save this ((now, uid, oid, discount) # calls) =
     (fst (applyCoupons save (fst (applyCoupon save now this uid oid discount)) calls),
      snd (applyCoupon save now this uid oid discount) #
      snd (applyCoupons save (fst (applyCoupon save now this uid oid discount)) calls))"
  by (simp add: Let_def split: prod.splits)

lemma applyCoupons_length:
  "length (snd (applyCoupons save this calls)) = length calls"
proof (induction calls arbitrary: this)
  case Nil
  show ?case by simp
next
  case (Cons call calls)
  obtain now uid oid discount where call: "call = (now, uid, oid, discount)"
    by (cases call) auto
  show ?case
    unfolding call applyCoupons_Cons by (simp add: Cons.IH)
qed

lemma applyCoupons_timesUsed:
  assumes "timesUsed this = of_int k" and "0 \<le> k"
    and "k + int (length calls) \<le> 2 ^ 53"
    and "length (usageHistory this) + length calls \<le> 4294967295"
  shows "timesUsed (fst (applyCoupons save this calls)) = of_int (k + int (length calls))"
  using assms
proof (induction calls arbitrary: this k)
  case Nil
  then show ?case by simp
next
  case (Cons call calls)
  obtain now uid oid discount where call: "call = (now, uid, oid, discount)"
    by (cases call) auto
  let ?this1 = "fst (applyCoupon save now this uid oid discount)"
  have k: "k < 2 ^ 53" and room: "length (usageHistory this) < 4294967295"
    using Cons.prems by simp_all
  have this1: "?this1 =
      this\<lparr>timesUsed := of_int (k + 1),
           usageHistory := usageHistory this @
             [\<lparr>userId = uid, orderId = oid, discountApplied = discount, appliedAt = now\<rparr>]\<rparr>"
    by (rule applyCoupon_exact(1) [OF Cons.prems(1,2) k room])
  have "timesUsed (fst (applyCoupons save ?this1 calls)) =
          of_int (k + 1 + int (length calls))"
  proof (rule Cons.IH)
    show "timesUsed ?this1 = of_int (k + 1)" by (simp add: this1)
    show "0 \<le> k + 1" using Cons.prems(2) by simp
    show "k + 1 + int (length calls) \<le> 2 ^ 53" using Cons.prems(3) by simp
    show "length (usageHistory ?this1) + length calls \<le> 4294967295"
      using Cons.prems(4) by (simp add: this1)
  qed
  then show ?case
    unfolding call applyCoupons_Cons by (simp add: add.assoc add.commute)
qed

lemma applyCoupons_outcomes:
  assumes "timesUsed this = of_int k" and "0 \<le> k"
    and "k + int (length calls) \<le> 2 ^ 53"
    and "length (usageHistory this) + length calls \<le> 4294967295"
    and "r \<in> set (snd (applyCoupons save this calls))"
  shows "(\<exists>doc. r = Inr doc \<and> save doc = None) \<or>
         (\<exists>doc msg. r = Inl (SaveFailed msg) \<and> save doc = Some msg)"
  using assms
proof (induction calls arbitrary: this k)
  case Nil
  then show ?case by simp
next
  case (Cons call calls)
  obtain now uid oid discount where call: "call = (now, uid, oid, discount)"
    by (cases call) auto
  let ?this1 = "fst (applyCoupon save now this uid oid discount)"
  have k: "k < 2 ^ 53" and room: "length (usageHistory this) < 4294967295"
    using Cons.prems by simp_all
  note exact = applyCoupon_exact [OF Cons.prems(1,2) k room, of save now uid oid discount]
  from Cons.prems(5) consider
      "r = snd (applyCoupon save now this uid oid discount)"
    | "r \<in> set (snd (applyCoupons save ?this1 calls))"
    unfolding call applyCoupons_Cons by auto
  then show ?case
  proof cases
    case 1
    then show ?thesis
      by (cases "save ?this1") (auto simp add: exact(2))
  next
    case 2
    show ?thesis
    proof (rule Cons.IH [OF _ _ _ _ 2])
      show "timesUsed ?this1 = of_int (k + 1)" by (simp add: exact(1))
      show "0 \<le> k + 1" using Cons.prems(2) by simp
      show "k + 1 + int (length calls) \<le> 2 ^ 53" using Cons.prems(3) by simp
      show "length (usageHistory ?this1) + length calls \<le> 4294967295"
        using Cons.prems(4) by (simp add: exact(1))
    qed
  qed
qed

text \<open>
  C10 as it is worded does not hold. \<open>applyCoupon\<close> has no conditional increment and no
  failure of its own: run one after another (one schedule of two parallel calls) on an
  offer with \<open>usageLimit = 1\<close> and \<open>timesUsed = 0\<close>, with a persistence layer that
  accepts the writes, two calls both succeed and leave \<open>timesUsed = 2\<close>.
\<close>

theorem applyCoupons_counterexample:
  "usageLimit ONCE = Some 1 \<and> timesUsed ONCE = 0 \<and>
   map isl (snd (applyCoupons accept ONCE
      [(1, Some user347, None, 100), (2, Some user348, None, 100)])) = [False, False] \<and>
   timesUsed (fst (applyCoupons accept ONCE
      [(1, Some user347, None, 100), (2, Some user348, None, 100)])) = 2"
  by (simp add: ONCE_def FLAT100_def applyCoupon_def push_def accept_def Let_def fl_1 fl_2)

text \<open>
  C10, amended: \<open>applyCoupon\<close> does not consult \<open>usageLimit\<close> and reports no
  redemption-race failure. N calls run one after another on one offer (for instance one
  with \<open>usageLimit = 1\<close> and \<open>timesUsed = 0\<close>) whose \<open>timesUsed\<close> is a non-negative
  integer with \<open>timesUsed + N \<le> 2 ^ 53\<close> and whose \<open>usageHistory\<close> has room for N more
  entries give N outcomes and raise \<open>timesUsed\<close> by N; the only failure a call reports
  is the one its \<^verbatim>\<open>save\<close> raised, so all N calls succeed when the persistence layer
  accepts every write.
\<close>

theorem applyCoupons_no_limit:
  assumes "timesUsed this = of_int k" and "0 \<le> k"
    and "k + int (length calls) \<le> 2 ^ 53"
    and "length (usageHistory this) + length calls \<le> 4294967295"
  shows "timesUsed (fst (applyCoupons save this calls)) =
           timesUsed this + of_nat (length calls) \<and>
         length (snd (applyCoupons save this calls)) = length calls \<and>
         (\<forall>r \<in> set (snd (applyCoupons save this calls)).
            \<forall>e. r = Inl e \<longrightarrow> (\<exists>doc msg. save doc = Some msg \<and> e = SaveFailed msg)) \<and>
         ((\<forall>doc. save doc = None) \<longrightarrow>
            (\<forall>r \<in> set (snd (applyCoupons save this calls)). \<not> isl r))"
proof -
  have "timesUsed (fst (applyCoupons save this calls)) =
          timesUsed this + of_nat (length calls)"
    using applyCoupons_timesUsed [OF assms, of save] assms(1) by simp
  moreover have "\<exists>doc msg. save doc = Some msg \<and> e = SaveFailed msg"
    if "r \<in> set (snd (applyCoupons save this calls))" and "r = Inl e" for r e
    using applyCoupons_outcomes [OF assms that(1)] that(2) by auto
  moreover have "\<not> isl r"
    if "r \<in> set (snd (applyCoupons save this calls))" and "\<forall>doc. save doc = None" for r
    using applyCoupons_outcomes [OF assms that(1)] that(2) by auto
  ultimately show ?thesis
    using applyCoupons_length [of save this calls] by blast
qed

theorem applyCoupons_no_limit_witness:
  "timesUsed ONCE = of_int 0 \<and> usageLimit ONCE = Some 1 \<and>
   length (usageHistory ONCE) + 2 \<le> 4294967295 \<and> accept ONCE = None \<and>
   timesUsed (fst (applyCoupons accept ONCE
      [(1, Some user347, None, 100), (2, Some user348, None, 100)])) = 2 \<and>
   length (snd (applyCoupons accept ONCE
      [(1, Some user347, None, 100), (2, Some user348, None, 100)])) = 2"
proof -
  have t: "timesUsed ONCE = of_int 0"
    by (simp add: ONCE_def FLAT100_def)
  show ?thesis
    using t applyCoupons_no_limit
      [OF t, of "[(1, Some user347, None, 100), (2, Some user348, None, 100)]" accept]
    by (simp add: accept_def ONCE_def FLAT100_def)
qed

end
